theory Spec2Isabelle
  imports Main
begin

section \<open>Python values, classes and exceptions\<close>

text \<open>
  The orchestration pipeline of \<^verbatim>\<open>parallel_llm/core.py\<close> is dynamically typed: the
  caller's \<^verbatim>\<open>response_format\<close> is a class object, the provider's parsed answers are
  instances of such classes (or \<^verbatim>\<open>None\<close>), and \<^verbatim>\<open>isinstance\<close> and
  \<^verbatim>\<open>issubclass\<close> decide what happens to them. A class is its name, the names of its
  model fields (own and inherited) and its base class; field types are not modelled.
\<close>

datatype pyclass = PyClass (cls_name: string) (cls_fields: "string list") (cls_base: "pyclass option")

datatype pyval =
    PyNone
  | PyStr string
  | PyInt int
  | PyDict "(string \<times> pyval) list"
  | PyObj pyclass "(string \<times> pyval) list"
  | PyType pyclass

definition BaseModel :: pyclass where
  "BaseModel = PyClass ''BaseModel'' [] None"

text \<open>\<^verbatim>\<open>issubclass(c, d)\<close> for two classes: \<open>c\<close> is \<open>d\<close> or its base chain reaches \<open>d\<close>.\<close>

fun issubclass :: "pyclass \<Rightarrow> pyclass \<Rightarrow> bool" where
  "issubclass (PyClass n fs b) d =
     (PyClass n fs b = d \<or> (case b of None \<Rightarrow> False | Some p \<Rightarrow> issubclass p d))"

text \<open>\<^verbatim>\<open>isinstance(v, c)\<close>: only objects are instances of the classes modelled here.\<close>

definition isinstance :: "pyval \<Rightarrow> pyclass \<Rightarrow> bool" where
  "isinstance v c = (case v of PyObj k _ \<Rightarrow> issubclass k c | _ \<Rightarrow> False)"

text \<open>Python truthiness, as tested by \<^verbatim>\<open>not x\<close>.\<close>

definition truthy :: "pyval \<Rightarrow> bool" where
  "truthy v =
     (case v of
        PyNone \<Rightarrow> False
      | PyStr s \<Rightarrow> s \<noteq> []
      | PyInt i \<Rightarrow> i \<noteq> 0
      | PyDict kvs \<Rightarrow> kvs \<noteq> []
      | PyObj _ _ \<Rightarrow> True
      | PyType _ \<Rightarrow> True)"

text \<open>
  \<^verbatim>\<open>hasattr(v, 'model_dump')\<close> and \<^verbatim>\<open>hasattr(v, 'model_dump_json')\<close>: the instances of
  pydantic models have both attributes, and so have the model classes themselves; other
  values have neither.
\<close>

definition has_model_methods :: "pyval \<Rightarrow> bool" where
  "has_model_methods v =
     (case v of
        PyObj k _ \<Rightarrow> issubclass k BaseModel
      | PyType k \<Rightarrow> issubclass k BaseModel
      | _ \<Rightarrow> False)"

text \<open>The fields a value carries, to say whether an answer holds a \<^verbatim>\<open>reasoning\<close> field.\<close>

definition has_field :: "pyval \<Rightarrow> string \<Rightarrow> bool" where
  "has_field v f =
     (case v of
        PyObj _ kvs \<Rightarrow> f \<in> set (map fst kvs)
      | PyDict kvs \<Rightarrow> f \<in> set (map fst kvs)
      | _ \<Rightarrow> False)"

text \<open>
  The exceptions of \<^verbatim>\<open>parallel_llm/errors.py\<close> that the core raises, with the arguments
  the core gives them (\<^verbatim>\<open>failed_processors\<close> is a keyword argument of
  \<^verbatim>\<open>ProcessingError\<close>, absent in most raises), and \<open>PyException\<close> for every other
  Python exception, carrying its \<^verbatim>\<open>str\<close>.
\<close>

datatype error =
    ValidationError string
  | ConfigurationError string
  | ProcessingError string "int option"
  | DecisionMakerError string
  | PyException string

text \<open>The two provider exceptions that are passed to \<^verbatim>\<open>handle_openai_error\<close>.\<close>

datatype openai_exc = RateLimitExc string | APIExc string

text \<open>
  What one attempt of the provider call, inside \<^verbatim>\<open>asyncio.wait_for\<close>, comes to:
  the parsed message of the first choice, or one of the four exception classes that
  \<^verbatim>\<open>_make_single_request\<close> handles, in the order of its handlers.
\<close>

datatype attempt_outcome =
    Parsed pyval
  | TimeoutError
  | RateLimitError string
  | APIError string
  | OtherException string

type_synonym message = "(string \<times> string) list"

record request =
  req_model :: string
  req_messages :: "message list"
  req_response_format :: pyclass
  req_kwargs :: "(string \<times> pyval) list"

text \<open>What a call does besides returning: provider attempts and back-off sleeps, in order.\<close>

datatype event = Attempt nat request | Sleep nat

text \<open>The outcome of attempt \<open>k\<close> of one call of \<^verbatim>\<open>_make_single_request\<close>.\<close>

type_synonym provider = "nat \<Rightarrow> request \<Rightarrow> attempt_outcome"

text \<open>
  The fields of \<^verbatim>\<open>FrameworkConfig\<close> that the core reads. The time-out bounds each
  attempt and shows as the outcome \<open>TimeoutError\<close>.
\<close>

record config =
  num_processors :: int
  max_retries :: int
  decision_maker_model :: string
  decision_maker_temperature :: pyval
  decision_maker_prompt :: string

text \<open>
  What the core calls and does not define: \<^verbatim>\<open>handle_openai_error\<close> and the
  \<^verbatim>\<open>__str__\<close> of the exceptions of \<^verbatim>\<open>errors.py\<close>, the pydantic methods
  \<^verbatim>\<open>model_dump\<close>, \<^verbatim>\<open>model_validate\<close> and \<^verbatim>\<open>model_dump_json\<close>, \<^verbatim>\<open>json.dumps\<close>, and the
  provider: the outcomes of the attempts of fan-out task \<open>i\<close> and of the
  decision-maker call.
\<close>

record env =
  handle_openai_error :: "openai_exc \<Rightarrow> error"
  exc_str :: "error \<Rightarrow> string"
  model_dump :: "pyval \<Rightarrow> error + pyval"
  model_validate :: "pyclass \<Rightarrow> pyval \<Rightarrow> error + pyval"
  model_dump_json :: "pyval \<Rightarrow> error + string"
  json_dumps :: "pyval \<Rightarrow> error + string"
  processor_call :: "nat \<Rightarrow> provider"
  decision_call :: provider

text \<open>\<^verbatim>\<open>str(e)\<close> of a raised exception.\<close>

definition error_str :: "env \<Rightarrow> error \<Rightarrow> string" where
  "error_str E e = (case e of PyException s \<Rightarrow> s | _ \<Rightarrow> exc_str E e)"

section \<open>Formatting\<close>

definition digit_char :: "nat \<Rightarrow> char" where
  "digit_char d = char_of (48 + d)"

fun str_nat :: "nat \<Rightarrow> string" where
  "str_nat n = (if n < 10 then [digit_char n] else str_nat (n div 10) @ [digit_char (n mod 10)])"

declare str_nat.simps [simp del]

definition str_int :: "int \<Rightarrow> string" where
  "str_int i = (if i < 0 then CHR ''-'' # str_nat (nat (- i)) else str_nat (nat i))"

definition newline :: char where
  "newline = CHR 0x0A"

text \<open>\<^verbatim>\<open>sep.join(xs)\<close>.\<close>

fun join :: "string \<Rightarrow> string list \<Rightarrow> string" where
  "join sep [] = []"
| "join sep [x] = x"
| "join sep (x # y # ys) = x @ sep @ join sep (y # ys)"

section \<open>\<^verbatim>\<open>_create_reasoning_format\<close>\<close>

text \<open>
  A subclass of the caller's format with the field \<^verbatim>\<open>reasoning\<close> added (a field of that
  name in the base is overridden, not repeated), renamed to the base's name followed by
  \<^verbatim>\<open>WithReasoning\<close>.
\<close>

definition create_reasoning_format :: "pyclass \<Rightarrow> pyclass" where
  "create_reasoning_format original_format =
     PyClass (cls_name original_format @ ''WithReasoning'')
       (if ''reasoning'' \<in> set (cls_fields original_format) then cls_fields original_format
        else cls_fields original_format @ [''reasoning''])
       (Some original_format)"

section \<open>\<^verbatim>\<open>_make_single_request\<close>\<close>

text \<open>
  The exception raised when the last attempt fails, one case per handler. The outcome
  \<open>Parsed\<close> never reaches a handler.
\<close>

definition final_error :: "env \<Rightarrow> int \<Rightarrow> attempt_outcome \<Rightarrow> error" where
  "final_error E R out =
     (case out of
        TimeoutError \<Rightarrow>
          ProcessingError (''Request timed out after '' @ str_int (R + 1) @ '' attempts'') None
      | RateLimitError s \<Rightarrow> handle_openai_error E (RateLimitExc s)
      | APIError s \<Rightarrow> handle_openai_error E (APIExc s)
      | OtherException s \<Rightarrow> ProcessingError (''Unexpected error: '' @ s) None
      | Parsed v \<Rightarrow> PyException [])"

text \<open>
  The loop \<^verbatim>\<open>for attempt in range(max_retries + 1)\<close>, at attempt \<open>k\<close> with \<open>n\<close> iterations
  left. A parsed answer returns. Each of the four handlers does the same: on the attempt
  whose number equals \<^verbatim>\<open>max_retries\<close> it raises, otherwise it sleeps \<^verbatim>\<open>2 ** attempt\<close> and
  the loop goes on. A range that runs out (it can only be empty) lets the function end
  without a \<^verbatim>\<open>return\<close>, which gives \<^verbatim>\<open>None\<close>.
\<close>

fun request_loop ::
  "env \<Rightarrow> int \<Rightarrow> provider \<Rightarrow> request \<Rightarrow> nat \<Rightarrow> nat \<Rightarrow> (error + pyval) \<times> event list" where
  "request_loop E R orc req k 0 = (Inr PyNone, [])"
| "request_loop E R orc req k (Suc n) =
     (case orc k req of
        Parsed v \<Rightarrow> (Inr v, [Attempt k req])
      | out \<Rightarrow>
          if int k = R then (Inl (final_error E R out), [Attempt k req])
          else (case request_loop E R orc req (Suc k) n of
                  (r, t) \<Rightarrow> (r, Attempt k req # Sleep (2 ^ k) # t)))"

definition make_single_request ::
  "env \<Rightarrow> config \<Rightarrow> provider \<Rightarrow> request \<Rightarrow> (error + pyval) \<times> event list" where
  "make_single_request E cfg orc req =
     request_loop E (max_retries cfg) orc req 0 (nat (max_retries cfg + 1))"

section \<open>\<^verbatim>\<open>_process_parallel_requests\<close>\<close>

text \<open>
  The loop over \<^verbatim>\<open>enumerate(results)\<close>: an exception adds one to \<^verbatim>\<open>failed_count\<close>,
  any other result is appended to \<^verbatim>\<open>successful_results\<close>.
\<close>

fun filter_results :: "(error + pyval) list \<Rightarrow> pyval list \<Rightarrow> int \<Rightarrow> pyval list \<times> int" where
  "filter_results [] successful_results failed_count = (successful_results, failed_count)"
| "filter_results (Inl e # results) successful_results failed_count =
     filter_results results successful_results (failed_count + 1)"
| "filter_results (Inr v # results) successful_results failed_count =
     filter_results results (successful_results @ [v]) failed_count"

text \<open>
  The handler around the body: a \<^verbatim>\<open>ProcessingError\<close> is raised again as it is, any
  other exception is wrapped.
\<close>

definition reraise_parallel :: "env \<Rightarrow> error \<Rightarrow> error" where
  "reraise_parallel E e =
     (case e of
        ProcessingError m fp \<Rightarrow> ProcessingError m fp
      | _ \<Rightarrow> ProcessingError (''Parallel processing error: '' @ error_str E e) None)"

text \<open>
  One task per index of \<^verbatim>\<open>range(num_processors)\<close>, all with the same request;
  \<^verbatim>\<open>asyncio.gather(*tasks, return_exceptions=True)\<close> gives one result per task, in the
  order of the tasks, an exception being a result. The second component holds what each
  task did, task by task.
\<close>

definition fanout_request :: "string \<Rightarrow> message list \<Rightarrow> pyclass \<Rightarrow> bool \<Rightarrow> (string \<times> pyval) list \<Rightarrow> request" where
  "fanout_request model messages response_format pass_reasoning kwargs =
     \<lparr> req_model = model, req_messages = messages,
       req_response_format =
         (if pass_reasoning then create_reasoning_format response_format else response_format),
       req_kwargs = kwargs \<rparr>"

definition run_tasks ::
  "env \<Rightarrow> config \<Rightarrow> request \<Rightarrow> ((error + pyval) \<times> event list) list" where
  "run_tasks E cfg req =
     map (\<lambda>i. make_single_request E cfg (processor_call E i) req) [0..<nat (num_processors cfg)]"

text \<open>The result of fan-out task \<open>i\<close>: a value when it succeeds, an exception when it fails.\<close>

definition task_result :: "env \<Rightarrow> config \<Rightarrow> request \<Rightarrow> nat \<Rightarrow> error + pyval" where
  "task_result E cfg req i = fst (make_single_request E cfg (processor_call E i) req)"

definition process_parallel_requests ::
  "env \<Rightarrow> config \<Rightarrow> string \<Rightarrow> message list \<Rightarrow> pyclass \<Rightarrow> bool \<Rightarrow> (string \<times> pyval) list
     \<Rightarrow> (error + pyval list) \<times> event list list" where
  "process_parallel_requests E cfg model messages response_format pass_reasoning kwargs =
     (let tasks = run_tasks E cfg (fanout_request model messages response_format pass_reasoning kwargs);
          results = map fst tasks
      in case filter_results results [] 0 of
           (successful_results, failed_count) \<Rightarrow>
             (if successful_results = []
              then Inl (reraise_parallel E
                     (ProcessingError ''All parallel processors failed'' (Some failed_count)))
              else Inr successful_results,
              map snd tasks))"

section \<open>\<^verbatim>\<open>_make_decision\<close>\<close>

text \<open>The rendering of one response: \<^verbatim>\<open>model_dump_json\<close> where the value has it.\<close>

definition render_response :: "env \<Rightarrow> pyval \<Rightarrow> error + string" where
  "render_response E response =
     (if has_model_methods response then model_dump_json E response else json_dumps E response)"

fun response_texts :: "env \<Rightarrow> nat \<Rightarrow> pyval list \<Rightarrow> error + string list" where
  "response_texts E i [] = Inr []"
| "response_texts E i (response # responses) =
     (case render_response E response of
        Inl e \<Rightarrow> Inl e
      | Inr response_json \<Rightarrow>
          (case response_texts E (Suc i) responses of
             Inl e \<Rightarrow> Inl e
           | Inr texts \<Rightarrow>
               Inr ((''Response '' @ str_int (int i + 1) @ '':'' @ [newline] @ response_json) # texts)))"

text \<open>\<^verbatim>\<open>msg[key]\<close> on a dictionary raises \<^verbatim>\<open>KeyError\<close> when the key is absent.\<close>

definition getitem :: "message \<Rightarrow> string \<Rightarrow> error + string" where
  "getitem msg key =
     (case map_of msg key of
        None \<Rightarrow> Inl (PyException ([CHR 0x27] @ key @ [CHR 0x27]))
      | Some v \<Rightarrow> Inr v)"

fun context_lines :: "message list \<Rightarrow> error + string list" where
  "context_lines [] = Inr []"
| "context_lines (msg # msgs) =
     (case getitem msg ''role'' of
        Inl e \<Rightarrow> Inl e
      | Inr role \<Rightarrow>
          (case getitem msg ''content'' of
             Inl e \<Rightarrow> Inl e
           | Inr content \<Rightarrow>
               (case context_lines msgs of
                  Inl e \<Rightarrow> Inl e
                | Inr ls \<Rightarrow> Inr ((role @ '': '' @ content) # ls))))"

definition decision_messages ::
  "env \<Rightarrow> config \<Rightarrow> pyval list \<Rightarrow> message list \<Rightarrow> error + message list" where
  "decision_messages E cfg responses original_messages =
     (case response_texts E 0 responses of
        Inl e \<Rightarrow> Inl e
      | Inr texts \<Rightarrow>
          (case context_lines original_messages of
             Inl e \<Rightarrow> Inl e
           | Inr ls \<Rightarrow>
               Inr [ [(''role'', ''system''), (''content'', decision_maker_prompt cfg)],
                     [(''role'', ''user''),
                      (''content'',
                         ''Original Query Context:'' @ [newline] @ join [newline] ls
                         @ [newline, newline] @ ''All Responses to Analyze:'' @ [newline]
                         @ join [newline, newline] texts @ [newline, newline]
                         @ ''Please analyze these responses and return the best one or synthesize a better response using the same format as the original responses.'')] ]))"

text \<open>
  The body of the \<^verbatim>\<open>try\<close>: a single response is returned at once; otherwise the
  messages are built and one call is made, with the decision maker's model and
  temperature and the caller's own format.
\<close>

definition decision_body ::
  "env \<Rightarrow> config \<Rightarrow> pyval list \<Rightarrow> pyclass \<Rightarrow> message list \<Rightarrow> (error + pyval) \<times> event list" where
  "decision_body E cfg responses response_format original_messages =
     (if length responses = 1 then (Inr (responses ! 0), [])
      else case decision_messages E cfg responses original_messages of
             Inl e \<Rightarrow> (Inl e, [])
           | Inr msgs \<Rightarrow>
               make_single_request E cfg (decision_call E)
                 \<lparr> req_model = decision_maker_model cfg, req_messages = msgs,
                   req_response_format = response_format,
                   req_kwargs = [(''temperature'', decision_maker_temperature cfg)] \<rparr>)"

text \<open>
  The handler: with a response at hand the first one is the fallback, with none the
  failure is raised as \<^verbatim>\<open>DecisionMakerError\<close>.
\<close>

definition make_decision ::
  "env \<Rightarrow> config \<Rightarrow> pyval list \<Rightarrow> pyclass \<Rightarrow> message list \<Rightarrow> (error + pyval) \<times> event list" where
  "make_decision E cfg responses response_format original_messages =
     (case decision_body E cfg responses response_format original_messages of
        (Inr v, t) \<Rightarrow> (Inr v, t)
      | (Inl e, t) \<Rightarrow>
          (if responses \<noteq> [] then (Inr (responses ! 0), t)
           else (Inl (DecisionMakerError
                   (''Decision maker failed and no fallback available: '' @ error_str E e)), t)))"

section \<open>\<^verbatim>\<open>_parse_internal\<close> and \<^verbatim>\<open>parse\<close>\<close>

text \<open>
  Step 3: a value that is an instance of the format is kept; another one is validated
  against the format, through \<^verbatim>\<open>model_dump\<close> when it has that method, and any exception
  on the way is raised as \<^verbatim>\<open>ValidationError\<close>.
\<close>

definition validate_final :: "env \<Rightarrow> pyclass \<Rightarrow> pyval \<Rightarrow> error + pyval" where
  "validate_final E response_format final_response =
     (if \<not> isinstance final_response response_format then
        (case (if has_model_methods final_response then
                 (case model_dump E final_response of
                    Inl e \<Rightarrow> Inl e
                  | Inr d \<Rightarrow> model_validate E response_format d)
               else model_validate E response_format final_response) of
           Inl e \<Rightarrow> Inl (ValidationError (''Failed to validate final response: '' @ error_str E e))
         | Inr v \<Rightarrow> Inr v)
      else Inr final_response)"

text \<open>
  The handlers around the body: the four exception classes of the package are raised
  again as they are, any other exception is wrapped in \<^verbatim>\<open>ProcessingError\<close>.
\<close>

definition reraise_parse :: "error \<Rightarrow> error" where
  "reraise_parse e =
     (case e of
        PyException s \<Rightarrow> ProcessingError (''Unexpected error: '' @ s) None
      | _ \<Rightarrow> e)"

text \<open>Steps 1 to 3, once the arguments are accepted and the format is the class \<open>c\<close>.\<close>

definition pipeline ::
  "env \<Rightarrow> config \<Rightarrow> string \<Rightarrow> message list \<Rightarrow> pyclass \<Rightarrow> bool \<Rightarrow> (string \<times> pyval) list
     \<Rightarrow> (error + pyval) \<times> event list list \<times> event list" where
  "pipeline E cfg model messages c pass_reasoning kwargs =
     (case process_parallel_requests E cfg model messages c pass_reasoning kwargs of
        (Inl e, ts) \<Rightarrow> (Inl e, ts, [])
      | (Inr parallel_responses, ts) \<Rightarrow>
          (case make_decision E cfg parallel_responses c messages of
             (Inl e, t) \<Rightarrow> (Inl e, ts, t)
           | (Inr final_response, t) \<Rightarrow> (validate_final E c final_response, ts, t)))"

text \<open>
  The result, what the fan-out tasks did and what the decision call did. The four checks
  of the arguments come first, in the order of the source; \<^verbatim>\<open>issubclass\<close> raises
  \<^verbatim>\<open>TypeError\<close> on an argument that is not a class, which the last handler wraps.
\<close>

definition parse_internal ::
  "env \<Rightarrow> config \<Rightarrow> string \<Rightarrow> message list \<Rightarrow> pyval \<Rightarrow> bool \<Rightarrow> (string \<times> pyval) list
     \<Rightarrow> (error + pyval) \<times> event list list \<times> event list" where
  "parse_internal E cfg model messages response_format pass_reasoning kwargs =
     (if model = [] then (Inl (ValidationError ''Model name is required''), [], [])
      else if messages = [] then (Inl (ValidationError ''Messages are required''), [], [])
      else if \<not> truthy response_format then
        (Inl (ValidationError ''Response format is required''), [], [])
      else case response_format of
             PyType c \<Rightarrow>
               (if \<not> issubclass c BaseModel then
                  (Inl (ValidationError ''Response format must be a Pydantic BaseModel''), [], [])
                else case pipeline E cfg model messages c pass_reasoning kwargs of
                       (Inl e, ts, t) \<Rightarrow> (Inl (reraise_parse e), ts, t)
                     | (Inr v, ts, t) \<Rightarrow> (Inr v, ts, t))
           | _ \<Rightarrow>
               (Inl (reraise_parse (PyException ''issubclass() arg 1 must be a class'')), [], []))"

definition parse ::
  "env \<Rightarrow> config \<Rightarrow> string \<Rightarrow> message list \<Rightarrow> pyval \<Rightarrow> bool \<Rightarrow> (string \<times> pyval) list
     \<Rightarrow> (error + pyval) \<times> event list list \<times> event list" where
  "parse E cfg model messages response_format pass_reasoning kwargs =
     parse_internal E cfg model messages response_format pass_reasoning kwargs"

section \<open>A concrete environment\<close>

text \<open>
  An instance of what the core calls, to run the pipeline on concrete inputs: a validator
  that accepts an instance of the class, or a dictionary holding every field of the class
  (other keys are dropped), and rejects everything else, \<^verbatim>\<open>None\<close> included.
\<close>

definition sample_model_validate :: "pyclass \<Rightarrow> pyval \<Rightarrow> error + pyval" where
  "sample_model_validate c v =
     (case v of
        PyDict kvs \<Rightarrow>
          (if set (cls_fields c) \<subseteq> set (map fst kvs)
           then Inr (PyObj c (filter (\<lambda>kv. fst kv \<in> set (cls_fields c)) kvs))
           else Inl (PyException ''Field required''))
      | PyObj k kvs \<Rightarrow>
          (if issubclass k c then Inr v
           else Inl (PyException ''Input should be a valid dictionary or instance''))
      | _ \<Rightarrow> Inl (PyException ''Input should be a valid dictionary or instance''))"

definition sample_model_dump :: "pyval \<Rightarrow> error + pyval" where
  "sample_model_dump v =
     (case v of PyObj k kvs \<Rightarrow> Inr (PyDict kvs) | _ \<Rightarrow> Inl (PyException ''no model_dump''))"

definition sample_exc_str :: "error \<Rightarrow> string" where
  "sample_exc_str e =
     (case e of
        ValidationError m \<Rightarrow> m
      | ConfigurationError m \<Rightarrow> m
      | ProcessingError m fp \<Rightarrow> m
      | DecisionMakerError m \<Rightarrow> m
      | PyException m \<Rightarrow> m)"

definition sample_handle_openai_error :: "openai_exc \<Rightarrow> error" where
  "sample_handle_openai_error x =
     (case x of
        RateLimitExc m \<Rightarrow> ProcessingError (''Rate limit exceeded: '' @ m) None
      | APIExc m \<Rightarrow> ProcessingError (''OpenAI API error: '' @ m) None)"

definition sample_env :: "(nat \<Rightarrow> provider) \<Rightarrow> provider \<Rightarrow> env" where
  "sample_env procs dm =
     \<lparr> handle_openai_error = sample_handle_openai_error,
       exc_str = sample_exc_str,
       model_dump = sample_model_dump,
       model_validate = sample_model_validate,
       model_dump_json = (\<lambda>v. Inr ''{}''),
       json_dumps = (\<lambda>v. Inr ''null''),
       processor_call = procs,
       decision_call = dm \<rparr>"

definition sample_config :: "int \<Rightarrow> int \<Rightarrow> config" where
  "sample_config n r =
     \<lparr> num_processors = n, max_retries = r, decision_maker_model = ''gpt-4o'',
       decision_maker_temperature = PyInt 0,
       decision_maker_prompt = ''Pick the best response.'' \<rparr>"

definition Answer :: pyclass where
  "Answer = PyClass ''Answer'' [''answer''] (Some BaseModel)"

definition sample_messages :: "message list" where
  "sample_messages = [[(''role'', ''user''), (''content'', ''What is 6 times 7?'')]]"

text \<open>Counting the provider attempts of a trace.\<close>

definition is_attempt :: "event \<Rightarrow> bool" where
  "is_attempt ev = (case ev of Attempt k req \<Rightarrow> True | Sleep d \<Rightarrow> False)"

text \<open>
  Providers for concrete runs: one that answers with an instance of the requested format,
  every field holding the number of the task; one whose parsed message is \<^verbatim>\<open>None\<close> (the
  provider's refusal); one that always times out; fan-outs whose first task times out or
  is refused; one that is rate-limited twice before it answers.
\<close>

definition answering :: "nat \<Rightarrow> provider" where
  "answering i k req =
     Parsed (PyObj (req_response_format req)
               (map (\<lambda>f. (f, PyStr (str_nat i))) (cls_fields (req_response_format req))))"

definition refusing :: provider where
  "refusing k req = Parsed PyNone"

definition timing_out :: provider where
  "timing_out k req = TimeoutError"

definition first_fails :: "nat \<Rightarrow> provider" where
  "first_fails i = (if i = 0 then timing_out else answering i)"

definition first_refuses :: "nat \<Rightarrow> provider" where
  "first_refuses i = (if i = 0 then refusing else answering i)"

definition flaky :: provider where
  "flaky k req = (if k < 2 then RateLimitError ''429'' else answering 0 k req)"

section \<open>Properties of the retry loop\<close>

text \<open>
  From attempt \<open>k\<close> with \<open>n\<close> iterations left, the last of them being attempt
  \<^verbatim>\<open>max_retries\<close>, the loop makes attempts \<open>k\<close> to some \<open>m\<close>, each failed one followed by
  its sleep, and the outcome of attempt \<open>m\<close> decides the result.
\<close>

lemma request_loop_shape:
  "0 < n \<Longrightarrow> int (k + n) = R + 1 \<Longrightarrow>
   \<exists>m. k \<le> m \<and> m \<le> nat R
     \<and> snd (request_loop E R orc req k n)
         = concat (map (\<lambda>j. [Attempt j req, Sleep (2 ^ j)]) [k..<m]) @ [Attempt m req]
     \<and> (\<forall>j. k \<le> j \<and> j < m \<longrightarrow> (\<forall>v. orc j req \<noteq> Parsed v))
     \<and> (m < nat R \<longrightarrow> (\<exists>v. orc m req = Parsed v))
     \<and> fst (request_loop E R orc req k n)
         = (case orc m req of Parsed v \<Rightarrow> Inr v | out \<Rightarrow> Inl (final_error E R out))"
proof (induction n arbitrary: k)
  case 0
  then show ?case by simp
next
  case (Suc n)
  show ?case
  proof (cases "\<exists>v. orc k req = Parsed v")
    case True
    then obtain v where v: "orc k req = Parsed v" by blast
    have "k \<le> nat R" using Suc.prems by linarith
    then show ?thesis using v by (intro exI[of _ k]) auto
  next
    case False
    note notparsed = False
    show ?thesis
    proof (cases "int k = R")
      case True
      have loop: "request_loop E R orc req k (Suc n) = (Inl (final_error E R (orc k req)), [Attempt k req])"
        using True notparsed by (cases "orc k req") simp_all
      have fin: "(case orc k req of Parsed v \<Rightarrow> Inr v | out \<Rightarrow> Inl (final_error E R out)) = Inl (final_error E R (orc k req))"
        using notparsed by (cases "orc k req") simp_all
      show ?thesis using True loop fin by (intro exI[of _ k]) auto
    next
      case False
      then have n: "0 < n" and inv: "int (Suc k + n) = R + 1" using Suc.prems by linarith+
      from Suc.IH[OF n inv] obtain m where m: "Suc k \<le> m" "m \<le> nat R"
        "snd (request_loop E R orc req (Suc k) n)
           = concat (map (\<lambda>j. [Attempt j req, Sleep (2 ^ j)]) [Suc k..<m]) @ [Attempt m req]"
        "\<forall>j. Suc k \<le> j \<and> j < m \<longrightarrow> (\<forall>v. orc j req \<noteq> Parsed v)"
        "m < nat R \<longrightarrow> (\<exists>v. orc m req = Parsed v)"
        "fst (request_loop E R orc req (Suc k) n)
           = (case orc m req of Parsed v \<Rightarrow> Inr v | out \<Rightarrow> Inl (final_error E R out))"
        by blast
      have loop: "request_loop E R orc req k (Suc n)
          = (fst (request_loop E R orc req (Suc k) n),
             Attempt k req # Sleep (2 ^ k) # snd (request_loop E R orc req (Suc k) n))"
        using False notparsed by (cases "orc k req") (simp_all add: case_prod_beta)
      have upt: "[k..<m] = k # [Suc k..<m]" using m(1) by (simp add: upt_conv_Cons)
      have before: "\<forall>j. k \<le> j \<and> j < m \<longrightarrow> (\<forall>v. orc j req \<noteq> Parsed v)"
        using m(4) notparsed by (metis Suc_leI le_neq_implies_less)
      show ?thesis
        using m(1,2,3,5,6) before by (intro exI[of _ m]) (auto simp: loop upt simp del: request_loop.simps)
    qed
  qed
qed


lemma make_single_request_no_attempt:
  "max_retries cfg < 0 \<Longrightarrow> make_single_request E cfg orc req = (Inr PyNone, [])"
  by (simp add: make_single_request_def)

lemma make_single_request_shape:
  assumes "0 \<le> max_retries cfg"
  shows "\<exists>m\<le>nat (max_retries cfg).
           snd (make_single_request E cfg orc req)
             = concat (map (\<lambda>j. [Attempt j req, Sleep (2 ^ j)]) [0..<m]) @ [Attempt m req]
         \<and> (\<forall>j<m. \<forall>v. orc j req \<noteq> Parsed v)
         \<and> (m < nat (max_retries cfg) \<longrightarrow> (\<exists>v. orc m req = Parsed v))
         \<and> fst (make_single_request E cfg orc req)
             = (case orc m req of Parsed v \<Rightarrow> Inr v
                | out \<Rightarrow> Inl (final_error E (max_retries cfg) out))"
proof -
  have pos: "0 < nat (max_retries cfg + 1)" using assms by simp
  have inv: "int (0 + nat (max_retries cfg + 1)) = max_retries cfg + 1" using assms by simp
  from request_loop_shape[OF pos inv, of E orc req]
  show ?thesis unfolding make_single_request_def by auto
qed

lemma attempts_backoff_trace:
  "length (filter is_attempt
     (concat (map (\<lambda>j. [Attempt j req, Sleep (2 ^ j)]) [k..<m]) @ [Attempt m req])) = m - k + 1"
proof (induction "m - k" arbitrary: k)
  case 0
  then show ?case by (simp add: is_attempt_def)
next
  case (Suc d)
  then have lt: "k < m" and d: "d = m - Suc k" by linarith+
  have upt: "[k..<m] = k # [Suc k..<m]" using lt by (simp add: upt_conv_Cons)
  show ?case using Suc.hyps(1)[OF d] lt by (simp add: upt is_attempt_def)
qed

lemma filter_results_eq:
  "filter_results rs s f
     = (s @ map projr (filter (\<lambda>r. \<not> isl r) rs), f + int (length (filter isl rs)))"
  by (induction rs s f rule: filter_results.induct) simp_all

lemma run_tasks_results:
  "map fst (run_tasks E cfg req) = map (task_result E cfg req) [0..<nat (num_processors cfg)]"
  by (simp add: run_tasks_def task_result_def)

lemma process_parallel_requests_eq:
  "fst (process_parallel_requests E cfg model messages c pr kw)
     = (let results = map (task_result E cfg (fanout_request model messages c pr kw))
                        [0..<nat (num_processors cfg)];
            successes = map projr (filter (\<lambda>r. \<not> isl r) results)
        in if successes = []
           then Inl (ProcessingError ''All parallel processors failed''
                       (Some (int (length (filter isl results)))))
           else Inr successes)"
  by (simp add: process_parallel_requests_def Let_def filter_results_eq run_tasks_results
        reraise_parallel_def)

lemma timing_out_fails:
  assumes "0 \<le> max_retries cfg"
  shows "isl (fst (make_single_request E cfg timing_out req))"
proof -
  from make_single_request_shape[OF assms, of E timing_out req] obtain m where
    "fst (make_single_request E cfg timing_out req)
       = (case timing_out m req of Parsed v \<Rightarrow> Inr v
          | out \<Rightarrow> Inl (final_error E (max_retries cfg) out))" by blast
  then show ?thesis by (simp add: timing_out_def)
qed

section \<open>Properties of the fan-out, the decision and the validation\<close>

lemma make_decision_returns:
  "responses \<noteq> [] \<Longrightarrow> \<exists>v. fst (make_decision E cfg responses c msgs) = Inr v"
  by (cases "decision_body E cfg responses c msgs")
     (auto simp: make_decision_def split: sum.splits)

lemma validate_final_Inr:
  "validate_final E c v = Inr r \<Longrightarrow>
   (r = v \<and> isinstance v c) \<or> (\<exists>d. model_validate E c d = Inr r)"
  by (auto simp: validate_final_def split: if_splits sum.splits)

lemma validate_final_Inl:
  "validate_final E c v = Inl e \<Longrightarrow>
   \<exists>m. e = ValidationError (''Failed to validate final response: '' @ m)"
  by (auto simp: validate_final_def split: if_splits sum.splits)

lemma pipeline_success:
  "fst (process_parallel_requests E cfg model messages c pr kw) = Inr responses \<Longrightarrow>
   fst (make_decision E cfg responses c messages) = Inr v \<Longrightarrow>
   fst (pipeline E cfg model messages c pr kw) = validate_final E c v"
  by (cases "process_parallel_requests E cfg model messages c pr kw";
      cases "make_decision E cfg responses c messages")
     (simp add: pipeline_def)

lemma pipeline_fanout_failure:
  "fst (process_parallel_requests E cfg model messages c pr kw) = Inl e \<Longrightarrow>
   fst (pipeline E cfg model messages c pr kw) = Inl e"
  by (cases "process_parallel_requests E cfg model messages c pr kw") (simp add: pipeline_def)

lemma parse_accepted:
  "model \<noteq> [] \<Longrightarrow> messages \<noteq> [] \<Longrightarrow> issubclass c BaseModel \<Longrightarrow>
   fst (parse E cfg model messages (PyType c) pr kw)
     = (case fst (pipeline E cfg model messages c pr kw) of
          Inl e \<Rightarrow> Inl (reraise_parse e) | Inr v \<Rightarrow> Inr v)"
  by (cases "pipeline E cfg model messages c pr kw")
     (auto simp: parse_def parse_internal_def truthy_def split: sum.splits)

lemma fanout_success:
  assumes "i < nat (num_processors cfg)"
      and "\<not> isl (task_result E cfg (fanout_request model messages c pr kw) i)"
  shows "\<exists>rs. rs \<noteq> [] \<and> fst (process_parallel_requests E cfg model messages c pr kw) = Inr rs"
proof -
  let ?results = "map (task_result E cfg (fanout_request model messages c pr kw))
                    [0..<nat (num_processors cfg)]"
  have "?results ! i \<in> set ?results" using assms(1) by (intro nth_mem) simp
  moreover have "?results ! i = task_result E cfg (fanout_request model messages c pr kw) i"
    using assms(1) by simp
  ultimately have "filter (\<lambda>r. \<not> isl r) ?results \<noteq> []"
    using assms(2) by (auto simp: filter_empty_conv simp del: map_eq_conv)
  then show ?thesis by (simp add: process_parallel_requests_eq Let_def)
qed

lemma parse_is_validate_final:
  assumes "model \<noteq> []" and "messages \<noteq> []" and "issubclass c BaseModel"
      and "fst (process_parallel_requests E cfg model messages c pr kw) = Inr rs"
      and "fst (make_decision E cfg rs c messages) = Inr v"
  shows "fst (parse E cfg model messages (PyType c) pr kw) = validate_final E c v"
proof (cases "validate_final E c v")
  case (Inl err)
  from validate_final_Inl[OF Inl] obtain m where
    "err = ValidationError (''Failed to validate final response: '' @ m)" by blast
  then show ?thesis
    using Inl pipeline_success[OF assms(4,5)]
    by (simp add: parse_accepted[OF assms(1-3)] reraise_parse_def)
next
  case (Inr r)
  then show ?thesis
    using pipeline_success[OF assms(4,5)] by (simp add: parse_accepted[OF assms(1-3)])
qed

lemma validate_final_not_all_failed:
  "validate_final E c v \<noteq> Inl (ProcessingError m n)"
  by (auto simp: validate_final_def split: sum.splits)

lemma first_attempt_made:
  assumes "0 \<le> max_retries cfg"
  shows "Attempt 0 req \<in> set (snd (make_single_request E cfg orc req))"
proof -
  have n: "nat (max_retries cfg + 1) = Suc (nat (max_retries cfg))" using assms by simp
  show ?thesis
    unfolding make_single_request_def n
    by (cases "orc 0 req") (auto split: prod.splits)
qed

lemma first_of_filter:
  "filter P xs = y # ys \<Longrightarrow> \<exists>i<length xs. xs ! i = y \<and> P y \<and> (\<forall>j<i. \<not> P (xs ! j))"
proof -
  assume "filter P xs = y # ys"
  then obtain us vs where s: "xs = us @ y # vs" "\<forall>u\<in>set us. \<not> P u" "P y"
    by (auto simp: filter_eq_Cons_iff)
  have "\<forall>j<length us. \<not> P (xs ! j)" using s(1,2) by (simp add: nth_append)
  then show ?thesis using s by (intro exI[of _ "length us"]) (simp add: nth_append)
qed

section \<open>The pipeline with at least one success\<close>

text \<open>
  C1, as amended. With arguments that pass the checks, \<^verbatim>\<open>num_processors\<close> at least 1
  and a fan-out task that succeeds, the fan-out gives a non-empty list, the decision step
  gives a value \<open>v\<close>, and \<^verbatim>\<open>parse\<close> never raises the error of the fan-out whose processors all
  failed. When \<open>v\<close> is an instance of the caller's \<^verbatim>\<open>response_format\<close>, \<^verbatim>\<open>parse\<close> returns
  \<open>v\<close>. When it is not, \<^verbatim>\<open>parse\<close> returns what \<^verbatim>\<open>model_validate\<close> builds against the format
  (from \<^verbatim>\<open>v.model_dump()\<close> when \<open>v\<close> has that method, from \<open>v\<close> otherwise), and raises
  \<^verbatim>\<open>ValidationError\<close> exactly when that validation raises.
\<close>

theorem parse_with_a_success:
  assumes "model \<noteq> []" and "messages \<noteq> []" and "issubclass c BaseModel"
      and "1 \<le> num_processors cfg"
      and "i < nat (num_processors cfg)"
      and "\<not> isl (task_result E cfg (fanout_request model messages c pr kw) i)"
  shows "\<exists>rs v.
           rs \<noteq> []
         \<and> fst (process_parallel_requests E cfg model messages c pr kw) = Inr rs
         \<and> fst (make_decision E cfg rs c messages) = Inr v
         \<and> (isinstance v c \<longrightarrow> fst (parse E cfg model messages (PyType c) pr kw) = Inr v)
         \<and> (\<not> isinstance v c \<longrightarrow>
              fst (parse E cfg model messages (PyType c) pr kw)
                = (case (if has_model_methods v then
                           (case model_dump E v of
                              Inl e \<Rightarrow> Inl e
                            | Inr d \<Rightarrow> model_validate E c d)
                         else model_validate E c v) of
                     Inl e \<Rightarrow>
                       Inl (ValidationError
                              (''Failed to validate final response: '' @ error_str E e))
                   | Inr r \<Rightarrow> Inr r))
         \<and> (\<forall>n. fst (parse E cfg model messages (PyType c) pr kw)
                   \<noteq> Inl (ProcessingError ''All parallel processors failed'' n))"
proof -
  from fanout_success[OF assms(5,6)] obtain rs where rs: "rs \<noteq> []"
    "fst (process_parallel_requests E cfg model messages c pr kw) = Inr rs" by blast
  from make_decision_returns[OF rs(1)] obtain v where
    v: "fst (make_decision E cfg rs c messages) = Inr v" by blast
  have p: "fst (parse E cfg model messages (PyType c) pr kw) = validate_final E c v"
    by (rule parse_is_validate_final[OF assms(1-3) rs(2) v])
  have inst: "isinstance v c \<longrightarrow> fst (parse E cfg model messages (PyType c) pr kw) = Inr v"
    unfolding p by (simp add: validate_final_def)
  have other: "\<not> isinstance v c \<longrightarrow>
      fst (parse E cfg model messages (PyType c) pr kw)
        = (case (if has_model_methods v then
                   (case model_dump E v of
                      Inl e \<Rightarrow> Inl e
                    | Inr d \<Rightarrow> model_validate E c d)
                 else model_validate E c v) of
             Inl e \<Rightarrow>
               Inl (ValidationError (''Failed to validate final response: '' @ error_str E e))
           | Inr r \<Rightarrow> Inr r)"
    unfolding p by (simp add: validate_final_def)
  have never: "\<forall>n. fst (parse E cfg model messages (PyType c) pr kw)
                   \<noteq> Inl (ProcessingError ''All parallel processors failed'' n)"
    unfolding p by (simp add: validate_final_not_all_failed)
  from rs v inst other never show ?thesis by blast
qed

theorem parse_with_a_success_witness:
  "''gpt-4o'' \<noteq> [] \<and> sample_messages \<noteq> [] \<and> issubclass Answer BaseModel
   \<and> 1 \<le> num_processors (sample_config 3 0) \<and> 1 < nat (num_processors (sample_config 3 0))
   \<and> \<not> isl (task_result (sample_env first_fails (answering 9)) (sample_config 3 0)
               (fanout_request ''gpt-4o'' sample_messages Answer False []) 1)
   \<and> fst (process_parallel_requests (sample_env first_fails (answering 9)) (sample_config 3 0)
            ''gpt-4o'' sample_messages Answer False [])
       = Inr [PyObj Answer [(''answer'', PyStr ''1'')], PyObj Answer [(''answer'', PyStr ''2'')]]
   \<and> fst (make_decision (sample_env first_fails (answering 9)) (sample_config 3 0)
            [PyObj Answer [(''answer'', PyStr ''1'')], PyObj Answer [(''answer'', PyStr ''2'')]]
            Answer sample_messages)
       = Inr (PyObj Answer [(''answer'', PyStr ''9'')])
   \<and> isinstance (PyObj Answer [(''answer'', PyStr ''9'')]) Answer
   \<and> fst (parse (sample_env first_fails (answering 9)) (sample_config 3 0) ''gpt-4o''
            sample_messages (PyType Answer) False [])
       = Inr (PyObj Answer [(''answer'', PyStr ''9'')])"
proof -
  have h: "''gpt-4o'' \<noteq> []" "sample_messages \<noteq> []" "issubclass Answer BaseModel"
    "1 \<le> num_processors (sample_config 3 0)" "1 < nat (num_processors (sample_config 3 0))"
    "\<not> isl (task_result (sample_env first_fails (answering 9)) (sample_config 3 0)
               (fanout_request ''gpt-4o'' sample_messages Answer False []) 1)"
    by code_simp+
  have v: "fst (process_parallel_requests (sample_env first_fails (answering 9))
             (sample_config 3 0) ''gpt-4o'' sample_messages Answer False [])
       = Inr [PyObj Answer [(''answer'', PyStr ''1'')], PyObj Answer [(''answer'', PyStr ''2'')]]"
    "fst (make_decision (sample_env first_fails (answering 9)) (sample_config 3 0)
            [PyObj Answer [(''answer'', PyStr ''1'')], PyObj Answer [(''answer'', PyStr ''2'')]]
            Answer sample_messages)
       = Inr (PyObj Answer [(''answer'', PyStr ''9'')])"
    "isinstance (PyObj Answer [(''answer'', PyStr ''9'')]) Answer"
    "fst (parse (sample_env first_fails (answering 9)) (sample_config 3 0) ''gpt-4o''
            sample_messages (PyType Answer) False [])
       = Inr (PyObj Answer [(''answer'', PyStr ''9'')])"
    by code_simp+
  from parse_with_a_success[OF h] h v show ?thesis by simp
qed

text \<open>
  C1 as first stated promises a returned value. It fails when both of two processors
  answer with instances of the format and the decision maker's parsed message is
  \<^verbatim>\<open>None\<close>: the decision call succeeds, \<^verbatim>\<open>None\<close> does not validate, and \<^verbatim>\<open>parse\<close>
  raises \<^verbatim>\<open>ValidationError\<close>.
\<close>

theorem parse_success_counterexample:
  "1 \<le> num_processors (sample_config 2 0)
   \<and> task_result (sample_env answering refusing) (sample_config 2 0)
        (fanout_request ''gpt-4o'' sample_messages Answer False []) 0
       = Inr (PyObj Answer [(''answer'', PyStr ''0'')])
   \<and> task_result (sample_env answering refusing) (sample_config 2 0)
        (fanout_request ''gpt-4o'' sample_messages Answer False []) 1
       = Inr (PyObj Answer [(''answer'', PyStr ''1'')])
   \<and> fst (parse (sample_env answering refusing) (sample_config 2 0) ''gpt-4o'' sample_messages
            (PyType Answer) False [])
       = Inl (ValidationError
           ''Failed to validate final response: Input should be a valid dictionary or instance'')"
  by code_simp

section \<open>The fan-out whose processors all fail\<close>

text \<open>
  C2. When every one of the \<^verbatim>\<open>num_processors\<close> fan-out tasks fails,
  \<^verbatim>\<open>_process_parallel_requests\<close> raises \<^verbatim>\<open>ProcessingError("All parallel processors failed")\<close>
  with \<^verbatim>\<open>failed_processors\<close> equal to \<^verbatim>\<open>num_processors\<close>, and \<^verbatim>\<open>parse\<close>, its arguments
  accepted, raises the same error.
\<close>

theorem all_processors_failed:
  assumes "0 \<le> num_processors cfg"
      and "\<forall>i<nat (num_processors cfg).
             isl (task_result E cfg (fanout_request model messages c pr kw) i)"
  shows "fst (process_parallel_requests E cfg model messages c pr kw)
           = Inl (ProcessingError ''All parallel processors failed'' (Some (num_processors cfg)))
       \<and> (model \<noteq> [] \<and> messages \<noteq> [] \<and> issubclass c BaseModel \<longrightarrow>
            fst (parse E cfg model messages (PyType c) pr kw)
              = Inl (ProcessingError ''All parallel processors failed''
                       (Some (num_processors cfg))))"
proof -
  let ?results = "map (task_result E cfg (fanout_request model messages c pr kw))
                    [0..<nat (num_processors cfg)]"
  have all: "\<forall>r\<in>set ?results. isl r" using assms(2) by auto
  have none: "filter (\<lambda>r. \<not> isl r) ?results = []"
    using all by (simp add: filter_empty_conv del: map_eq_conv)
  have every: "filter isl ?results = ?results"
    using all by (simp add: filter_id_conv del: map_eq_conv)
  have len: "int (length (filter isl ?results)) = num_processors cfg"
    unfolding every using assms(1) by simp
  have fan: "fst (process_parallel_requests E cfg model messages c pr kw)
           = Inl (ProcessingError ''All parallel processors failed'' (Some (num_processors cfg)))"
    using none len by (simp add: process_parallel_requests_eq Let_def del: map_eq_conv)
  show ?thesis
    using fan pipeline_fanout_failure[OF fan]
    by (auto simp: parse_accepted reraise_parse_def)
qed

theorem all_processors_failed_witness:
  "0 \<le> num_processors (sample_config 5 2)
   \<and> isl (task_result (sample_env (\<lambda>i. timing_out) refusing) (sample_config 5 2)
           (fanout_request ''gpt-4o'' sample_messages Answer False []) 4)
   \<and> fst (process_parallel_requests (sample_env (\<lambda>i. timing_out) refusing) (sample_config 5 2)
            ''gpt-4o'' sample_messages Answer False [])
       = Inl (ProcessingError ''All parallel processors failed'' (Some 5))
   \<and> fst (parse (sample_env (\<lambda>i. timing_out) refusing) (sample_config 5 2) ''gpt-4o''
            sample_messages (PyType Answer) False [])
       = Inl (ProcessingError ''All parallel processors failed'' (Some 5))"
proof -
  let ?E = "sample_env (\<lambda>i. timing_out) refusing"
  let ?cfg = "sample_config 5 2"
  have n: "0 \<le> num_processors ?cfg" "num_processors ?cfg = 5" "0 \<le> max_retries ?cfg"
    by (simp_all add: sample_config_def)
  have f: "\<forall>i<nat (num_processors ?cfg).
             isl (task_result ?E ?cfg (fanout_request ''gpt-4o'' sample_messages Answer False []) i)"
    using timing_out_fails[OF n(3), of ?E] by (simp add: task_result_def sample_env_def)
  have a: "''gpt-4o'' \<noteq> [] \<and> sample_messages \<noteq> [] \<and> issubclass Answer BaseModel"
    by code_simp
  from all_processors_failed[OF n(1) f] a n f show ?thesis by simp
qed

section \<open>The reasoning field\<close>

text \<open>
  With \<^verbatim>\<open>pass_reasoning\<close> set, every attempt of every fan-out task asks for the format
  that \<^verbatim>\<open>_create_reasoning_format\<close> derives, which has the field \<^verbatim>\<open>reasoning\<close>.
\<close>

lemma request_loop_events:
  "request_loop E R orc req k n = (x, t) \<Longrightarrow> Attempt j r \<in> set t \<Longrightarrow> r = req"
proof (induction n arbitrary: k x t)
  case 0
  then show ?case by simp
next
  case (Suc n)
  then show ?case
    by (cases "orc k req") (auto split: if_splits prod.splits)
qed

lemma fanout_requests_reasoning_format:
  assumes "t \<in> set (snd (process_parallel_requests E cfg model messages c True kw))"
      and "Attempt j r \<in> set t"
  shows "req_response_format r = create_reasoning_format c
       \<and> ''reasoning'' \<in> set (cls_fields (req_response_format r))"
proof -
  from assms(1) obtain i where
    "t = snd (make_single_request E cfg (processor_call E i)
                (fanout_request model messages c True kw))"
    by (auto simp: process_parallel_requests_def run_tasks_def Let_def split: prod.splits)
  with assms(2) have "r = fanout_request model messages c True kw"
    by (cases "request_loop E (max_retries cfg) (processor_call E i)
                 (fanout_request model messages c True kw) 0 (nat (max_retries cfg + 1))")
       (auto simp: make_single_request_def dest: request_loop_events)
  then show ?thesis by (simp add: fanout_request_def create_reasoning_format_def)
qed

lemma fanout_one_trace_per_task:
  "length (snd (process_parallel_requests E cfg model messages c pr kw))
     = nat (num_processors cfg)"
  by (simp add: process_parallel_requests_def run_tasks_def Let_def split: prod.splits)
text \<open>
  C3. The claim says that with \<^verbatim>\<open>pass_reasoning\<close> the value returned to the caller holds
  no \<^verbatim>\<open>reasoning\<close> field. With one processor, whose answer is an instance of the derived
  format, \<^verbatim>\<open>_make_decision\<close> returns that answer at once, step 3 accepts it as an instance
  of the caller's format (the derived class is a subclass), and \<^verbatim>\<open>parse\<close> returns it with
  its \<^verbatim>\<open>reasoning\<close> field.
\<close>

theorem reasoning_field_returned:
  "fst (parse (sample_env answering refusing) (sample_config 1 0) ''gpt-4o'' sample_messages
          (PyType Answer) True [])
     = Inr (PyObj (create_reasoning_format Answer)
              [(''answer'', PyStr ''0''), (''reasoning'', PyStr ''0'')])
   \<and> has_field (PyObj (create_reasoning_format Answer)
                   [(''answer'', PyStr ''0''), (''reasoning'', PyStr ''0'')]) ''reasoning''"
  by code_simp

section \<open>The decision step\<close>

text \<open>
  C4, as amended. When the body of \<^verbatim>\<open>_make_decision\<close> fails, the synthesis call or the
  building of its messages, and the list of responses is not empty, the decision step
  returns the first response of the list instead of raising. \<^verbatim>\<open>parse\<close> then returns that
  first response when it is an instance of the caller's format; when it is not,
  \<^verbatim>\<open>parse\<close> returns what \<^verbatim>\<open>model_validate\<close> builds from it against the format, and raises
  \<^verbatim>\<open>ValidationError\<close> when that validation raises.
\<close>

theorem decision_failure_falls_back:
  assumes "responses \<noteq> []"
      and "fst (decision_body E cfg responses c msgs) = Inl e"
  shows "fst (make_decision E cfg responses c msgs) = Inr (responses ! 0)
       \<and> (model \<noteq> [] \<and> msgs \<noteq> [] \<and> issubclass c BaseModel
            \<and> fst (process_parallel_requests E cfg model msgs c pr kw) = Inr responses \<longrightarrow>
            (isinstance (responses ! 0) c \<longrightarrow>
               fst (parse E cfg model msgs (PyType c) pr kw) = Inr (responses ! 0))
          \<and> (\<not> isinstance (responses ! 0) c \<longrightarrow>
               fst (parse E cfg model msgs (PyType c) pr kw)
                 = (case (if has_model_methods (responses ! 0) then
                            (case model_dump E (responses ! 0) of
                               Inl x \<Rightarrow> Inl x
                             | Inr d \<Rightarrow> model_validate E c d)
                          else model_validate E c (responses ! 0)) of
                      Inl x \<Rightarrow>
                        Inl (ValidationError
                               (''Failed to validate final response: '' @ error_str E x))
                    | Inr r \<Rightarrow> Inr r)))"
proof -
  have d: "fst (make_decision E cfg responses c msgs) = Inr (responses ! 0)"
    using assms by (cases "decision_body E cfg responses c msgs") (simp add: make_decision_def)
  have "(isinstance (responses ! 0) c \<longrightarrow>
               fst (parse E cfg model msgs (PyType c) pr kw) = Inr (responses ! 0))
          \<and> (\<not> isinstance (responses ! 0) c \<longrightarrow>
               fst (parse E cfg model msgs (PyType c) pr kw)
                 = (case (if has_model_methods (responses ! 0) then
                            (case model_dump E (responses ! 0) of
                               Inl x \<Rightarrow> Inl x
                             | Inr d \<Rightarrow> model_validate E c d)
                          else model_validate E c (responses ! 0)) of
                      Inl x \<Rightarrow>
                        Inl (ValidationError
                               (''Failed to validate final response: '' @ error_str E x))
                    | Inr r \<Rightarrow> Inr r))"
    if a: "model \<noteq> []" "msgs \<noteq> []" "issubclass c BaseModel"
      and f: "fst (process_parallel_requests E cfg model msgs c pr kw) = Inr responses"
    unfolding parse_is_validate_final[OF a f d] by (simp add: validate_final_def)
  then show ?thesis using d by blast
qed

theorem decision_failure_falls_back_witness:
  "[PyObj Answer [(''answer'', PyStr ''0'')], PyObj Answer [(''answer'', PyStr ''1'')]] \<noteq> []
   \<and> fst (decision_body (sample_env answering timing_out) (sample_config 2 1)
            [PyObj Answer [(''answer'', PyStr ''0'')], PyObj Answer [(''answer'', PyStr ''1'')]]
            Answer sample_messages)
       = Inl (ProcessingError ''Request timed out after 2 attempts'' None)
   \<and> fst (process_parallel_requests (sample_env answering timing_out) (sample_config 2 1)
            ''gpt-4o'' sample_messages Answer False [])
       = Inr [PyObj Answer [(''answer'', PyStr ''0'')], PyObj Answer [(''answer'', PyStr ''1'')]]
   \<and> isinstance (PyObj Answer [(''answer'', PyStr ''0'')]) Answer
   \<and> fst (make_decision (sample_env answering timing_out) (sample_config 2 1)
            [PyObj Answer [(''answer'', PyStr ''0'')], PyObj Answer [(''answer'', PyStr ''1'')]]
            Answer sample_messages)
       = Inr (PyObj Answer [(''answer'', PyStr ''0'')])
   \<and> fst (parse (sample_env answering timing_out) (sample_config 2 1) ''gpt-4o''
            sample_messages (PyType Answer) False [])
       = Inr (PyObj Answer [(''answer'', PyStr ''0'')])"
proof -
  let ?E = "sample_env answering timing_out"
  let ?cfg = "sample_config 2 1"
  let ?rs = "[PyObj Answer [(''answer'', PyStr ''0'')], PyObj Answer [(''answer'', PyStr ''1'')]]"
  have h1: "?rs \<noteq> []" by simp
  have h2: "fst (decision_body ?E ?cfg ?rs Answer sample_messages)
       = Inl (ProcessingError ''Request timed out after 2 attempts'' None)"
    by code_simp
  have h3: "''gpt-4o'' \<noteq> [] \<and> sample_messages \<noteq> [] \<and> issubclass Answer BaseModel
       \<and> fst (process_parallel_requests ?E ?cfg ''gpt-4o'' sample_messages Answer False [])
           = Inr ?rs"
    by code_simp
  have i: "isinstance (PyObj Answer [(''answer'', PyStr ''0'')]) Answer" by code_simp
  from decision_failure_falls_back[OF h1 h2, of "''gpt-4o''" False "[]"] h1 h2 h3 i
  show ?thesis by simp
qed

text \<open>
  C4 as first stated has the pipeline return the first response whenever the synthesis
  call fails. It fails when the first of two processors is refused (its parsed message
  is \<^verbatim>\<open>None\<close>), the second answers, and the synthesis call times out: the decision step
  falls back to \<^verbatim>\<open>None\<close>, which does not validate, and \<^verbatim>\<open>parse\<close> raises
  \<^verbatim>\<open>ValidationError\<close>.
\<close>

theorem decision_fallback_counterexample:
  "fst (process_parallel_requests (sample_env first_refuses timing_out) (sample_config 2 0)
          ''gpt-4o'' sample_messages Answer False [])
     = Inr [PyNone, PyObj Answer [(''answer'', PyStr ''1'')]]
   \<and> fst (decision_body (sample_env first_refuses timing_out) (sample_config 2 0)
            [PyNone, PyObj Answer [(''answer'', PyStr ''1'')]] Answer sample_messages)
       = Inl (ProcessingError ''Request timed out after 1 attempts'' None)
   \<and> fst (make_decision (sample_env first_refuses timing_out) (sample_config 2 0)
            [PyNone, PyObj Answer [(''answer'', PyStr ''1'')]] Answer sample_messages)
       = Inr PyNone
   \<and> fst (parse (sample_env first_refuses timing_out) (sample_config 2 0) ''gpt-4o''
            sample_messages (PyType Answer) False [])
       = Inl (ValidationError
           ''Failed to validate final response: Input should be a valid dictionary or instance'')"
  by code_simp

text \<open>
  C5. With exactly one response the decision step returns it and does nothing else: no
  provider attempt, no sleep.
\<close>

theorem single_response_short_circuit:
  "make_decision E cfg [v] c msgs = (Inr v, [])"
  by (simp add: make_decision_def decision_body_def)

text \<open>
  C7, as amended. With an empty list of responses the decision step makes no check of its
  own. It builds the synthesis messages; when building them raises (a message without
  \<^verbatim>\<open>role\<close> or \<^verbatim>\<open>content\<close>) it raises \<^verbatim>\<open>DecisionMakerError\<close> and no provider call is made.
  Otherwise it makes the synthesis call and does nothing else: it returns the call's
  answer when the call succeeds and raises \<^verbatim>\<open>DecisionMakerError\<close> when the call fails, and
  with \<^verbatim>\<open>max_retries\<close> not negative the call makes a provider attempt.
\<close>

theorem empty_responses_decision:
  "make_decision E cfg [] c msgs
     = (case decision_messages E cfg [] msgs of
          Inl e \<Rightarrow>
            (Inl (DecisionMakerError
                    (''Decision maker failed and no fallback available: '' @ error_str E e)), [])
        | Inr dm \<Rightarrow>
            (case make_single_request E cfg (decision_call E)
                    \<lparr> req_model = decision_maker_model cfg, req_messages = dm,
                      req_response_format = c,
                      req_kwargs = [(''temperature'', decision_maker_temperature cfg)] \<rparr> of
               (Inr v, t) \<Rightarrow> (Inr v, t)
             | (Inl e, t) \<Rightarrow>
                 (Inl (DecisionMakerError
                         (''Decision maker failed and no fallback available: ''
                            @ error_str E e)), t)))
   \<and> (\<forall>dm. 0 \<le> max_retries cfg \<and> decision_messages E cfg [] msgs = Inr dm \<longrightarrow>
          Attempt 0 \<lparr> req_model = decision_maker_model cfg, req_messages = dm,
                      req_response_format = c,
                      req_kwargs = [(''temperature'', decision_maker_temperature cfg)] \<rparr>
            \<in> set (snd (make_decision E cfg [] c msgs)))"
proof -
  have eq: "make_decision E cfg [] c msgs
     = (case decision_messages E cfg [] msgs of
          Inl e \<Rightarrow>
            (Inl (DecisionMakerError
                    (''Decision maker failed and no fallback available: '' @ error_str E e)), [])
        | Inr dm \<Rightarrow>
            (case make_single_request E cfg (decision_call E)
                    \<lparr> req_model = decision_maker_model cfg, req_messages = dm,
                      req_response_format = c,
                      req_kwargs = [(''temperature'', decision_maker_temperature cfg)] \<rparr> of
               (Inr v, t) \<Rightarrow> (Inr v, t)
             | (Inl e, t) \<Rightarrow>
                 (Inl (DecisionMakerError
                         (''Decision maker failed and no fallback available: ''
                            @ error_str E e)), t)))"
    by (simp add: make_decision_def decision_body_def split: sum.splits prod.splits)
  have tr: "Attempt 0 \<lparr> req_model = decision_maker_model cfg, req_messages = dm,
                      req_response_format = c,
                      req_kwargs = [(''temperature'', decision_maker_temperature cfg)] \<rparr>
            \<in> set (snd (make_decision E cfg [] c msgs))"
    if r: "0 \<le> max_retries cfg" and dm: "decision_messages E cfg [] msgs = Inr dm" for dm
  proof -
    let ?req = "\<lparr> req_model = decision_maker_model cfg, req_messages = dm,
                   req_response_format = c,
                   req_kwargs = [(''temperature'', decision_maker_temperature cfg)] \<rparr>"
    have "snd (make_decision E cfg [] c msgs)
            = snd (make_single_request E cfg (decision_call E) ?req)"
      unfolding eq dm by (simp split: sum.splits prod.splits)
    then show ?thesis using first_attempt_made[OF r, of ?req E "decision_call E"] by simp
  qed
  from eq tr show ?thesis by blast
qed

theorem empty_responses_decision_witness:
  "0 \<le> max_retries (sample_config 3 0)
   \<and> decision_messages (sample_env answering timing_out) (sample_config 3 0) [] sample_messages
     = Inr [[(''role'', ''system''), (''content'', ''Pick the best response.'')],
            [(''role'', ''user''),
             (''content'',
                ''Original Query Context:'' @ [newline] @ ''user: What is 6 times 7?''
                @ [newline, newline] @ ''All Responses to Analyze:'' @ [newline]
                @ [newline, newline]
                @ ''Please analyze these responses and return the best one or synthesize a better response using the same format as the original responses.'')]]
   \<and> make_decision (sample_env answering timing_out) (sample_config 3 0) [] Answer
        sample_messages
       = (Inl (DecisionMakerError
            ''Decision maker failed and no fallback available: Request timed out after 1 attempts''),
          [Attempt 0
             \<lparr> req_model = ''gpt-4o'',
               req_messages =
                 [[(''role'', ''system''), (''content'', ''Pick the best response.'')],
                  [(''role'', ''user''),
                   (''content'',
                      ''Original Query Context:'' @ [newline] @ ''user: What is 6 times 7?''
                      @ [newline, newline] @ ''All Responses to Analyze:'' @ [newline]
                      @ [newline, newline]
                      @ ''Please analyze these responses and return the best one or synthesize a better response using the same format as the original responses.'')]],
               req_response_format = Answer,
               req_kwargs = [(''temperature'', PyInt 0)] \<rparr>])
   \<and> make_decision (sample_env answering (answering 7)) (sample_config 3 0) [] Answer
        [[(''content'', ''What is 6 times 7?'')]]
       = (Inl (DecisionMakerError
            (''Decision maker failed and no fallback available: '' @ [CHR 0x27] @ ''role''
               @ [CHR 0x27])), [])"
proof -
  let ?dm = "[[(''role'', ''system''), (''content'', ''Pick the best response.'')],
            [(''role'', ''user''),
             (''content'',
                ''Original Query Context:'' @ [newline] @ ''user: What is 6 times 7?''
                @ [newline, newline] @ ''All Responses to Analyze:'' @ [newline]
                @ [newline, newline]
                @ ''Please analyze these responses and return the best one or synthesize a better response using the same format as the original responses.'')]]"
  have h: "0 \<le> max_retries (sample_config 3 0)"
    "decision_messages (sample_env answering timing_out) (sample_config 3 0) []
             sample_messages = Inr ?dm"
    by code_simp+
  have r: "make_decision (sample_env answering timing_out) (sample_config 3 0) [] Answer
        sample_messages
       = (Inl (DecisionMakerError
            ''Decision maker failed and no fallback available: Request timed out after 1 attempts''),
          [Attempt 0
             \<lparr> req_model = ''gpt-4o'', req_messages = ?dm, req_response_format = Answer,
               req_kwargs = [(''temperature'', PyInt 0)] \<rparr>])"
    "make_decision (sample_env answering (answering 7)) (sample_config 3 0) [] Answer
        [[(''content'', ''What is 6 times 7?'')]]
       = (Inl (DecisionMakerError
            (''Decision maker failed and no fallback available: '' @ [CHR 0x27] @ ''role''
               @ [CHR 0x27])), [])"
    by code_simp+
  from empty_responses_decision[of "sample_env answering timing_out" "sample_config 3 0"
         Answer sample_messages] h r
  show ?thesis by simp
qed

text \<open>
  C7 as first stated has the decision step fail on an empty list whatever the provider
  does. It fails here: the list is empty, the synthesis call is made and answers, and the
  decision step returns that answer.
\<close>

theorem empty_responses_counterexample:
  "make_decision (sample_env answering (answering 7)) (sample_config 3 2) [] Answer sample_messages
     = (Inr (PyObj Answer [(''answer'', PyStr ''7'')]),
        [Attempt 0
           \<lparr> req_model = ''gpt-4o'',
             req_messages =
               [[(''role'', ''system''), (''content'', ''Pick the best response.'')],
                [(''role'', ''user''),
                 (''content'',
                    ''Original Query Context:'' @ [newline] @ ''user: What is 6 times 7?''
                    @ [newline, newline] @ ''All Responses to Analyze:'' @ [newline]
                    @ [newline, newline]
                    @ ''Please analyze these responses and return the best one or synthesize a better response using the same format as the original responses.'')]],
             req_response_format = Answer,
             req_kwargs = [(''temperature'', PyInt 0)] \<rparr>])"
  by code_simp

section \<open>The retry budget and the back-off\<close>

text \<open>
  C6. One call of \<^verbatim>\<open>_make_single_request\<close> makes at most \<^verbatim>\<open>max_retries + 1\<close> provider
  attempts. With \<^verbatim>\<open>max_retries\<close> not negative it makes attempts 0 to \<open>m\<close>, every attempt
  before \<open>m\<close> failed (time-out, rate limit, API error or any other exception alike) and
  followed by a sleep of \<open>2 ^ k\<close> after attempt \<open>k\<close>; it stops before the budget is spent
  only on a parsed answer.
\<close>

theorem retry_budget_and_backoff:
  "length (filter is_attempt (snd (make_single_request E cfg orc req)))
     \<le> nat (max_retries cfg + 1)
   \<and> (0 \<le> max_retries cfg \<longrightarrow>
        (\<exists>m\<le>nat (max_retries cfg).
           snd (make_single_request E cfg orc req)
             = concat (map (\<lambda>k. [Attempt k req, Sleep (2 ^ k)]) [0..<m]) @ [Attempt m req]
         \<and> (\<forall>k<m. \<forall>v. orc k req \<noteq> Parsed v)
         \<and> (m < nat (max_retries cfg) \<longrightarrow> (\<exists>v. orc m req = Parsed v))))"
proof (cases "0 \<le> max_retries cfg")
  case True
  from make_single_request_shape[OF True, of E orc req] obtain m where m:
    "m \<le> nat (max_retries cfg)"
    "snd (make_single_request E cfg orc req)
       = concat (map (\<lambda>k. [Attempt k req, Sleep (2 ^ k)]) [0..<m]) @ [Attempt m req]"
    "\<forall>k<m. \<forall>v. orc k req \<noteq> Parsed v"
    "m < nat (max_retries cfg) \<longrightarrow> (\<exists>v. orc m req = Parsed v)"
    by blast
  have "length (filter is_attempt (snd (make_single_request E cfg orc req))) = m + 1"
    unfolding m(2) using attempts_backoff_trace[of req 0 m] by simp
  then have "length (filter is_attempt (snd (make_single_request E cfg orc req)))
               \<le> nat (max_retries cfg + 1)"
    using m(1) True by linarith
  then show ?thesis using m by blast
next
  case False
  then show ?thesis by (simp add: make_single_request_no_attempt)
qed

theorem retry_budget_and_backoff_witness:
  "0 \<le> max_retries (sample_config 1 3)
   \<and> snd (make_single_request (sample_env answering refusing) (sample_config 1 3) flaky
            (fanout_request ''gpt-4o'' sample_messages Answer False []))
       = [Attempt 0 (fanout_request ''gpt-4o'' sample_messages Answer False []), Sleep 1,
          Attempt 1 (fanout_request ''gpt-4o'' sample_messages Answer False []), Sleep 2,
          Attempt 2 (fanout_request ''gpt-4o'' sample_messages Answer False [])]
   \<and> length (filter is_attempt
        (snd (make_single_request (sample_env answering refusing) (sample_config 1 3) flaky
               (fanout_request ''gpt-4o'' sample_messages Answer False []))))
       \<le> nat (max_retries (sample_config 1 3) + 1)"
proof -
  have h: "0 \<le> max_retries (sample_config 1 3)" by (simp add: sample_config_def)
  have t: "snd (make_single_request (sample_env answering refusing) (sample_config 1 3) flaky
            (fanout_request ''gpt-4o'' sample_messages Answer False []))
       = [Attempt 0 (fanout_request ''gpt-4o'' sample_messages Answer False []), Sleep 1,
          Attempt 1 (fanout_request ''gpt-4o'' sample_messages Answer False []), Sleep 2,
          Attempt 2 (fanout_request ''gpt-4o'' sample_messages Answer False [])]"
    by code_simp
  from retry_budget_and_backoff[of "sample_env answering refusing" "sample_config 1 3" flaky
         "fanout_request ''gpt-4o'' sample_messages Answer False []"] h t
  show ?thesis by blast
qed

section \<open>The final validation\<close>

text \<open>
  C8. A final response that is an instance of the caller's format is returned by step 3
  as it is.
\<close>

theorem validate_final_identity:
  "isinstance v c \<Longrightarrow> validate_final E c v = Inr v"
  by (simp add: validate_final_def)

theorem validate_final_identity_witness:
  "isinstance (PyObj Answer [(''answer'', PyStr ''42'')]) Answer
   \<and> validate_final (sample_env answering refusing) Answer (PyObj Answer [(''answer'', PyStr ''42'')])
       = Inr (PyObj Answer [(''answer'', PyStr ''42'')])"
proof -
  have h: "isinstance (PyObj Answer [(''answer'', PyStr ''42'')]) Answer" by code_simp
  from validate_final_identity[OF h] h show ?thesis by simp
qed

section \<open>The checks of the arguments\<close>

text \<open>
  An empty model name, an empty list of messages, a falsy format and a class that is not
  a subclass of \<^verbatim>\<open>BaseModel\<close> are each rejected with \<^verbatim>\<open>ValidationError\<close> before any
  provider attempt.
\<close>

lemma parse_rejects_arguments:
  "model = [] \<or> messages = [] \<or> \<not> truthy response_format
     \<or> (\<exists>c. response_format = PyType c \<and> \<not> issubclass c BaseModel) \<Longrightarrow>
   \<exists>m. parse E cfg model messages response_format pr kw = (Inl (ValidationError m), [], [])"
  by (auto simp: parse_def parse_internal_def truthy_def)

text \<open>
  C9. The claim has \<^verbatim>\<open>ValidationError\<close> for every format that is not a subclass of
  \<^verbatim>\<open>BaseModel\<close>. A format that is no class at all, here the dictionary
  \<^verbatim>\<open>{"type": "json_object"}\<close>, makes \<^verbatim>\<open>issubclass\<close> raise \<^verbatim>\<open>TypeError\<close>, and \<^verbatim>\<open>parse\<close>
  raises \<^verbatim>\<open>ProcessingError\<close> instead.
\<close>

theorem parse_non_class_format:
  "parse E cfg ''gpt-4o'' sample_messages (PyDict [(''type'', PyStr ''json_object'')]) False []
     = (Inl (ProcessingError ''Unexpected error: issubclass() arg 1 must be a class'' None), [], [])"
  by (simp add: parse_def parse_internal_def truthy_def reraise_parse_def sample_messages_def)

section \<open>The order of the successful responses\<close>

text \<open>
  C10. The successful responses are the results of the succeeding tasks in the order of
  the task indices, and the first of them, the fallback of the decision step, is the
  result of the succeeding task with the smallest index.
\<close>

theorem fanout_keeps_task_order:
  assumes "fst (process_parallel_requests E cfg model messages c pr kw) = Inr successes"
  shows "successes
           = map projr (filter (\<lambda>r. \<not> isl r)
               (map (task_result E cfg (fanout_request model messages c pr kw))
                  [0..<nat (num_processors cfg)]))
       \<and> (\<exists>i<nat (num_processors cfg).
            task_result E cfg (fanout_request model messages c pr kw) i = Inr (successes ! 0)
          \<and> (\<forall>j<i. isl (task_result E cfg (fanout_request model messages c pr kw) j)))"
proof -
  let ?results = "map (task_result E cfg (fanout_request model messages c pr kw))
                    [0..<nat (num_processors cfg)]"
  have eq: "successes = map projr (filter (\<lambda>r. \<not> isl r) ?results)"
    and ne: "filter (\<lambda>r. \<not> isl r) ?results \<noteq> []"
    using assms by (auto simp: process_parallel_requests_eq Let_def split: if_splits simp del: map_eq_conv)
  from ne obtain y ys where f: "filter (\<lambda>r. \<not> isl r) ?results = y # ys"
    by (cases "filter (\<lambda>r. \<not> isl r) ?results") auto
  from first_of_filter[OF f] obtain i where i: "i < length ?results" "?results ! i = y"
    "\<not> isl y" "\<forall>j<i. isl (?results ! j)" by auto
  have s0: "successes ! 0 = projr y" using eq f by simp
  have y: "y = Inr (successes ! 0)" using i(3) s0 by (cases y) simp_all
  have iN: "i < nat (num_processors cfg)" using i(1) by simp
  have "task_result E cfg (fanout_request model messages c pr kw) i = Inr (successes ! 0)"
    using i(2) iN y by simp
  moreover have "\<forall>j<i. isl (task_result E cfg (fanout_request model messages c pr kw) j)"
    using i(4) iN by simp
  ultimately show ?thesis using eq iN by blast
qed

theorem fanout_keeps_task_order_witness:
  "fst (process_parallel_requests (sample_env first_fails refusing) (sample_config 3 0) ''gpt-4o''
          sample_messages Answer False [])
     = Inr [PyObj Answer [(''answer'', PyStr ''1'')], PyObj Answer [(''answer'', PyStr ''2'')]]
   \<and> map (task_result (sample_env first_fails refusing) (sample_config 3 0)
            (fanout_request ''gpt-4o'' sample_messages Answer False [])) [0, 1, 2]
       = [Inl (ProcessingError ''Request timed out after 1 attempts'' None),
          Inr (PyObj Answer [(''answer'', PyStr ''1'')]),
          Inr (PyObj Answer [(''answer'', PyStr ''2'')])]"
proof -
  have h: "fst (process_parallel_requests (sample_env first_fails refusing) (sample_config 3 0)
             ''gpt-4o'' sample_messages Answer False [])
     = Inr [PyObj Answer [(''answer'', PyStr ''1'')], PyObj Answer [(''answer'', PyStr ''2'')]]"
    by code_simp
  have t: "map (task_result (sample_env first_fails refusing) (sample_config 3 0)
            (fanout_request ''gpt-4o'' sample_messages Answer False [])) [0, 1, 2]
       = [Inl (ProcessingError ''Request timed out after 1 attempts'' None),
          Inr (PyObj Answer [(''answer'', PyStr ''1'')]),
          Inr (PyObj Answer [(''answer'', PyStr ''2'')])]"
    by code_simp
  from fanout_keeps_task_order[OF h] h t show ?thesis by simp
qed

end
